theory Spec2Isabelle
  imports Main "HOL-Library.Sublist"
begin

section \<open>Team model, tenant middleware and integration save handler\<close>

text \<open>
  A shallow embedding of \<^verbatim>\<open>src/api/src/models/team.model.ts\<close> and
  \<^verbatim>\<open>src/api/src/controllers/integration.controller/save.post.ts\<close>.
  Promises are modelled by their outcome: a rejected promise (a thrown exception) is
  \<open>Inl\<close>, a fulfilled one is \<open>Inr\<close>. Mutable objects (the store, the accessor
  \<^verbatim>\<open>this\<close>, the request) are passed in and returned updated. Calls on the Express
  response object, on \<^verbatim>\<open>next\<close> and on the console are recorded, in order, as a list
  of effects.
\<close>

subsection \<open>JavaScript values and exceptions\<close>

text \<open>
  Exceptions of the team model. \<open>ModelErrorMsg s\<close> is \<^verbatim>\<open>new ModelError(s)\<close> for a
  string, \<open>ModelError e\<close> is \<^verbatim>\<open>new ModelError(e)\<close> for a caught exception,
  \<open>TypeError\<close> is what the runtime throws on a property read of null or undefined, and
  \<open>StoreFault\<close> is whatever the persistence gateway rejects with.
\<close>

datatype exn =
    StoreFault string
  | TypeError string
  | ModelErrorMsg string
  | ModelError exn

text \<open>
  Modelled from the spec: the class \<^verbatim>\<open>ModelError\<close> lives in \<^verbatim>\<open>models/index\<close>,
  which is not among the sources; the text of its constant \<^verbatim>\<open>NO_INIT\<close> is the spec's
  "not initialized" error.
\<close>

definition NO_INIT :: string where
  "NO_INIT = ''not initialized''"

text \<open>Truthiness of an optional string and of an optional number (None is undefined or null).\<close>

fun truthy_str :: "string option \<Rightarrow> bool" where
  "truthy_str None = False"
| "truthy_str (Some s) = (s \<noteq> [])"

fun truthy_num :: "int option \<Rightarrow> bool" where
  "truthy_num None = False"
| "truthy_num (Some n) = (n \<noteq> 0)"

text \<open>\<^verbatim>\<open>x || d\<close> for an optional number \<open>x\<close>: \<open>x\<close> when it is truthy, else \<open>d\<close>.\<close>

fun js_or :: "int option \<Rightarrow> int \<Rightarrow> int" where
  "js_or None d = d"
| "js_or (Some n) d = (if n \<noteq> 0 then n else d)"

text \<open>Reading index \<open>i\<close> of an array: undefined (None) out of range.\<close>

fun js_index :: "'a list \<Rightarrow> nat \<Rightarrow> 'a option" where
  "js_index [] i = None"
| "js_index (x # xs) 0 = Some x"
| "js_index (x # xs) (Suc i) = js_index xs i"

text \<open>
  \<^verbatim>\<open>String.prototype.split(sep)\<close> for a non-empty separator: the pieces between the
  non-overlapping occurrences of \<open>sep\<close>, found left to right. \<open>acc\<close> holds the current
  piece, reversed. (Both separators of the source, \<^verbatim>\<open>"://"\<close> and \<^verbatim>\<open>"."\<close>, are
  non-empty; for an empty one this function returns the whole string as one piece.)
\<close>

fun js_split_aux :: "string \<Rightarrow> string \<Rightarrow> string \<Rightarrow> string list" where
  "js_split_aux sep acc [] = [rev acc]"
| "js_split_aux sep acc (c # cs) =
     (if sep \<noteq> [] \<and> prefix sep (c # cs)
      then rev acc # js_split_aux sep [] (drop (length sep - 1) cs)
      else js_split_aux sep (c # acc) cs)"

definition js_split :: "string \<Rightarrow> string \<Rightarrow> string list" where
  "js_split sep s = js_split_aux sep [] s"

subsection \<open>The persistence gateway\<close>

text \<open>
  Rows of the \<^verbatim>\<open>teams\<close> and \<^verbatim>\<open>users\<close> tables. \<^verbatim>\<open>customer_id\<close> can be null.
\<close>

record team_row =
  row_id :: int
  row_subdomain :: string
  row_customer_id :: "string option"

record user_row =
  user_email :: string
  user_team_id :: "int option"

text \<open>The calls the code makes on the gateway, with their arguments.\<close>

datatype db_call =
    FindOneById "int option"
  | FindOneBySubdomain "string option"
  | InsertTeam string
  | UpdateSubdomain "int option" string
  | UpdateCustomerId "int option" string
  | QueryTeamOfUser string string

text \<open>
  Modelled from the spec: the gateway (the \<^verbatim>\<open>massive\<close> database handle) is an external
  collaborator with table operations \<^verbatim>\<open>findOne(filter) -> row|null\<close>,
  \<^verbatim>\<open>insert(fields) -> row\<close>, \<^verbatim>\<open>update(filter, fields) -> row\<close> and a raw
  \<^verbatim>\<open>query(sql, params) -> rows\<close>. The store holds the two tables, the next identifier
  it will assign (ids are assigned by the store), a fault that every call rejects with
  while it is set, and the log of the calls it has received.
\<close>

record database =
  teams :: "team_row list"
  users :: "user_row list"
  next_id :: int
  fault :: "exn option"
  calls :: "db_call list"

definition called :: "db_call \<Rightarrow> database \<Rightarrow> database" where
  "called c db = db\<lparr>calls := calls db @ [c]\<rparr>"

definition teams_findOne_id :: "int option \<Rightarrow> database \<Rightarrow> (exn + team_row option) \<times> database" where
  "teams_findOne_id i db =
     (case fault db of
        Some e \<Rightarrow> (Inl e, called (FindOneById i) db)
      | None \<Rightarrow> (Inr (find (\<lambda>r. Some (row_id r) = i) (teams db)), called (FindOneById i) db))"

definition teams_findOne_subdomain ::
  "string option \<Rightarrow> database \<Rightarrow> (exn + team_row option) \<times> database" where
  "teams_findOne_subdomain s db =
     (case fault db of
        Some e \<Rightarrow> (Inl e, called (FindOneBySubdomain s) db)
      | None \<Rightarrow>
          (Inr (find (\<lambda>r. Some (row_subdomain r) = s) (teams db)), called (FindOneBySubdomain s) db))"

definition teams_insert :: "string \<Rightarrow> database \<Rightarrow> (exn + team_row option) \<times> database" where
  "teams_insert s db =
     (case fault db of
        Some e \<Rightarrow> (Inl e, called (InsertTeam s) db)
      | None \<Rightarrow>
          (let r = \<lparr>row_id = next_id db, row_subdomain = s, row_customer_id = None\<rparr>
           in (Inr (Some r),
               called (InsertTeam s) (db\<lparr>teams := teams db @ [r], next_id := next_id db + 1\<rparr>))))"

definition teams_update_subdomain ::
  "int option \<Rightarrow> string \<Rightarrow> database \<Rightarrow> (exn + team_row option) \<times> database" where
  "teams_update_subdomain i s db =
     (case fault db of
        Some e \<Rightarrow> (Inl e, called (UpdateSubdomain i s) db)
      | None \<Rightarrow>
          (let ts = map (\<lambda>r. if Some (row_id r) = i then r\<lparr>row_subdomain := s\<rparr> else r) (teams db)
           in (Inr (find (\<lambda>r. Some (row_id r) = i) ts),
               called (UpdateSubdomain i s) (db\<lparr>teams := ts\<rparr>))))"

definition teams_update_customer_id ::
  "int option \<Rightarrow> string \<Rightarrow> database \<Rightarrow> (exn + team_row option) \<times> database" where
  "teams_update_customer_id i c db =
     (case fault db of
        Some e \<Rightarrow> (Inl e, called (UpdateCustomerId i c) db)
      | None \<Rightarrow>
          (let ts = map (\<lambda>r. if Some (row_id r) = i then r\<lparr>row_customer_id := Some c\<rparr> else r) (teams db)
           in (Inr (find (\<lambda>r. Some (row_id r) = i) ts),
               called (UpdateCustomerId i c) (db\<lparr>teams := ts\<rparr>))))"

text \<open>
  The join query of \<^verbatim>\<open>verifySubdomain\<close>:
  \<^verbatim>\<open>SELECT teams.id FROM users LEFT JOIN teams ON users.team_id = teams.id
  WHERE teams.subdomain = $1 AND users.email = $2\<close>. A result row is its \<^verbatim>\<open>id\<close>.
\<close>

definition query_team_of_user :: "string \<Rightarrow> string \<Rightarrow> database \<Rightarrow> (exn + int list) \<times> database" where
  "query_team_of_user s email db =
     (case fault db of
        Some e \<Rightarrow> (Inl e, called (QueryTeamOfUser s email) db)
      | None \<Rightarrow>
          (Inr (concat (map (\<lambda>u. map row_id
                   (filter (\<lambda>t. user_team_id u = Some (row_id t) \<and> row_subdomain t = s \<and> user_email u = email)
                      (teams db))) (users db))),
           called (QueryTeamOfUser s email) db))"

subsection \<open>TeamModel: static methods\<close>

definition available :: "database \<Rightarrow> string \<Rightarrow> (exn + bool) \<times> database" where
  "available db subdomain =
     (case teams_findOne_subdomain (Some subdomain) db of
        (Inl e, db') \<Rightarrow> (Inl (ModelError e), db')
      | (Inr found, db') \<Rightarrow> (Inr (case found of Some _ \<Rightarrow> False | None \<Rightarrow> True), db'))"

definition findTeamByURL :: "database \<Rightarrow> string \<Rightarrow> (exn + team_row option) \<times> database" where
  "findTeamByURL db url =
     (let subdomain = js_index (js_split ''.'' url) 0
      in case teams_findOne_subdomain subdomain db of
           (Inl e, db') \<Rightarrow> (Inl (ModelError e), db')
         | (Inr found, db') \<Rightarrow> (Inr found, db'))"

subsection \<open>TeamModel: the accessor object\<close>

text \<open>
  The fields of \<^verbatim>\<open>this\<close> other than the store handle, which is passed beside it.
  A field that has not been assigned is undefined (None).
\<close>

record TeamModel =
  initialized :: bool
  this_id :: "int option"
  this_subdomain :: "string option"
  this_customer_id :: "string option"

definition new_TeamModel :: "int option \<Rightarrow> TeamModel" where
  "new_TeamModel i =
     \<lparr>initialized = False, this_id = i, this_subdomain = None, this_customer_id = None\<rparr>"

definition warn_no_team :: string where
  "warn_no_team = ''Cannot find team with passed '' @ [CHR 0x22] @ ''id'' @ [CHR 0x22]"

text \<open>
  \<^verbatim>\<open>init\<close> returns the outcome, the accessor, the store and the console warnings.
  Reading \<^verbatim>\<open>team.subdomain\<close> when \<^verbatim>\<open>findOne\<close> resolved to null throws a TypeError
  inside the \<^verbatim>\<open>try\<close>, which the \<^verbatim>\<open>catch\<close> wraps.
\<close>

definition init ::
  "TeamModel \<Rightarrow> database \<Rightarrow> (exn + int option) \<times> TeamModel \<times> database \<times> string list" where
  "init this db =
     (case teams_findOne_id (this_id this) db of
        (Inl e, db') \<Rightarrow> (Inl (ModelError e), this, db', [])
      | (Inr None, db') \<Rightarrow>
          (Inl (ModelError (TypeError ''Cannot read property subdomain of null'')), this, db', [])
      | (Inr (Some team), db') \<Rightarrow>
          (if row_subdomain team \<noteq> []
           then (Inr (this_id this),
                 this\<lparr>this_subdomain := Some (row_subdomain team),
                      this_customer_id := row_customer_id team,
                      initialized := True\<rparr>, db', [])
           else (Inr (this_id this), this\<lparr>initialized := True\<rparr>, db', [warn_no_team])))"

definition create ::
  "TeamModel \<Rightarrow> string \<Rightarrow> database \<Rightarrow> (exn + int option) \<times> TeamModel \<times> database" where
  "create this newURL db =
     (case teams_insert newURL db of
        (Inl e, db') \<Rightarrow> (Inl (ModelError e), this, db')
      | (Inr (Some newTeam), db') \<Rightarrow>
          (Inr (Some (row_id newTeam)),
           this\<lparr>this_id := Some (row_id newTeam), initialized := True\<rparr>, db')
      | (Inr None, db') \<Rightarrow>
          (Inl (ModelError (ModelErrorMsg ''Team was not created. Please verify model integrity'')),
           this, db'))"

definition getSubdomain :: "TeamModel \<Rightarrow> exn + string option" where
  "getSubdomain this =
     (if initialized this then Inr (this_subdomain this) else Inl (ModelErrorMsg NO_INIT))"

definition setSubdomain ::
  "TeamModel \<Rightarrow> string \<Rightarrow> database \<Rightarrow> (exn + team_row option) \<times> TeamModel \<times> database" where
  "setSubdomain this newURL db =
     (if initialized this
      then (case teams_update_subdomain (this_id this) newURL db of
              (Inl e, db') \<Rightarrow> (Inl (ModelError e), this\<lparr>this_subdomain := Some newURL\<rparr>, db')
            | (Inr r, db') \<Rightarrow> (Inr r, this\<lparr>this_subdomain := Some newURL\<rparr>, db'))
      else (Inl (ModelErrorMsg NO_INIT), this, db))"

definition getCustomerID :: "TeamModel \<Rightarrow> exn + string option" where
  "getCustomerID this =
     (if initialized this then Inr (this_customer_id this) else Inl (ModelErrorMsg NO_INIT))"

definition setCustomerID ::
  "TeamModel \<Rightarrow> string \<Rightarrow> database \<Rightarrow> (exn + team_row option) \<times> TeamModel \<times> database" where
  "setCustomerID this customer_id db =
     (if initialized this
      then (case teams_update_customer_id (this_id this) customer_id db of
              (Inl e, db') \<Rightarrow> (Inl (ModelError e), this\<lparr>this_customer_id := Some customer_id\<rparr>, db')
            | (Inr r, db') \<Rightarrow> (Inr r, this\<lparr>this_customer_id := Some customer_id\<rparr>, db'))
      else (Inl (ModelErrorMsg NO_INIT), this, db))"

text \<open>
  \<^verbatim>\<open>hasActiveSubscription\<close> of \<^verbatim>\<open>lib/StripeService\<close> is an external collaborator,
  taken as the parameter \<open>stripe\<close>.
\<close>

definition hasActiveSubscription ::
  "(string option \<Rightarrow> exn + bool) \<Rightarrow> TeamModel \<Rightarrow> exn + bool" where
  "hasActiveSubscription stripe this =
     (if initialized this then stripe (this_customer_id this) else Inl (ModelErrorMsg NO_INIT))"

subsection \<open>Middleware\<close>

text \<open>
  The calls a handler makes on the response object, on \<^verbatim>\<open>next\<close> and on
  \<^verbatim>\<open>console.error\<close>, in the order it makes them. \<open>ErrorBody m\<close> is the object
  \<^verbatim>\<open>{ error: m }\<close>; \<open>ResSend\<close> is \<^verbatim>\<open>res.send()\<close> with no argument.
\<close>

datatype body = ErrorBody string

datatype 'e effect =
    ResStatus int
  | ResJson body
  | ResSend
  | ResEnd
  | ResSendStatus int
  | Next
  | ConsoleError 'e

text \<open>The test of the regular expression \<^verbatim>\<open>/^[0-9a-z\-]+$/\<close> on a string.\<close>

definition in_class :: "char \<Rightarrow> bool" where
  "in_class c = (c \<in> set ''0123456789abcdefghijklmnopqrstuvwxyz-'')"

definition regex_test :: "string \<Rightarrow> bool" where
  "regex_test s = (s \<noteq> [] \<and> list_all in_class s)"

text \<open>\<^verbatim>\<open>RegExp.prototype.test\<close> converts its argument to a string first.\<close>

fun to_string :: "string option \<Rightarrow> string" where
  "to_string None = ''undefined''"
| "to_string (Some s) = s"

record ITeamURLRequestBody =
  newURL :: "string option"

definition msg_required :: string where
  "msg_required = ''newURL is required''"

definition msg_charset :: string where
  "msg_charset = ''newURL can only conatain lowercase letters, numbers and dashes''"

text \<open>
  \<^verbatim>\<open>verifyTeamName\<close>: the two checks in sequence, each on the variable \<^verbatim>\<open>passed\<close> and
  on the calls made so far.
\<close>

definition check_present :: "ITeamURLRequestBody \<Rightarrow> bool \<times> exn effect list \<Rightarrow> bool \<times> exn effect list" where
  "check_present b st =
     (if \<not> truthy_str (newURL b)
      then (False, snd st @ [ResStatus 400, ResJson (ErrorBody msg_required)])
      else st)"

definition check_charset :: "ITeamURLRequestBody \<Rightarrow> bool \<times> exn effect list \<Rightarrow> bool \<times> exn effect list" where
  "check_charset b st =
     (if \<not> regex_test (to_string (newURL b))
      then (False, snd st @ [ResStatus 400, ResJson (ErrorBody msg_charset)])
      else st)"

definition verifyTeamName :: "ITeamURLRequestBody \<Rightarrow> exn effect list" where
  "verifyTeamName b =
     (let st = check_charset b (check_present b (True, []))
      in if fst st then snd st @ [Next] else snd st)"

text \<open>
  The Express response object, as far as \<^verbatim>\<open>verifyTeamName\<close> uses it:
  \<^verbatim>\<open>res.status(n)\<close> sets \<^verbatim>\<open>statusCode\<close>; \<^verbatim>\<open>res.json(b)\<close> sends the response with
  the current status code and the body \<open>b\<close>, and throws \<^verbatim>\<open>ERR_HTTP_HEADERS_SENT\<close>
  when the response has already been sent. \<open>sent_status\<close> and \<open>sent_body\<close> are what the
  client has received.
\<close>

datatype express_error = ERR_HTTP_HEADERS_SENT

record response =
  statusCode :: int
  headersSent :: bool
  sent_status :: "int option"
  sent_body :: "body option"


definition res_status :: "int \<Rightarrow> response \<Rightarrow> response" where
  "res_status n r = r\<lparr>statusCode := n\<rparr>"

definition res_json :: "body \<Rightarrow> response \<Rightarrow> express_error + response" where
  "res_json b r =
     (if headersSent r then Inl ERR_HTTP_HEADERS_SENT
      else Inr (r\<lparr>headersSent := True, sent_status := Some (statusCode r), sent_body := Some b\<rparr>))"

text \<open>
  The body of a failing check, \<^verbatim>\<open>passed = false; res.status(400); res.json({ error: m })\<close>:
  the new value of \<^verbatim>\<open>passed\<close> and the response, or the exception thrown and the
  response as it was left.
\<close>

definition reject_400 ::
  "string \<Rightarrow> response \<Rightarrow> (express_error \<times> response) + (bool \<times> response)" where
  "reject_400 m r =
     (case res_json (ErrorBody m) (res_status 400 r) of
        Inl e \<Rightarrow> Inl (e, res_status 400 r)
      | Inr r' \<Rightarrow> Inr (False, r'))"

text \<open>
  \<^verbatim>\<open>verifyTeamName\<close> run on a response object: what it throws, if anything, the
  response, and the number of calls of \<^verbatim>\<open>next\<close>. An exception of the first check
  leaves the function before the second.
\<close>

definition verifyTeamName_on ::
  "ITeamURLRequestBody \<Rightarrow> response \<Rightarrow> (express_error + unit) \<times> response \<times> nat" where
  "verifyTeamName_on b r =
     (case (if \<not> truthy_str (newURL b) then reject_400 msg_required r else Inr (True, r)) of
        Inl (e, r1) \<Rightarrow> (Inl e, r1, 0)
      | Inr (passed, r1) \<Rightarrow>
          (case (if \<not> regex_test (to_string (newURL b)) then reject_400 msg_charset r1
                 else Inr (passed, r1)) of
             Inl (e, r2) \<Rightarrow> (Inl e, r2, 0)
           | Inr (passed', r2) \<Rightarrow> (Inr (), r2, if passed' then 1 else 0)))"

record ITeam =
  team_id :: int
  team_subdomain :: string

text \<open>
  The request of \<^verbatim>\<open>verifySubdomain\<close>: the Origin header, the email of the authenticated
  user (None when \<^verbatim>\<open>req.user\<close> is undefined) and the tenant context \<^verbatim>\<open>req.team\<close>.
\<close>

record ITeamRequest =
  origin :: "string option"
  user :: "string option"
  team :: "ITeam option"

text \<open>
  \<^verbatim>\<open>(req.headers.origin as string).split("://")[1].split(".")[0]\<close>: calling
  \<^verbatim>\<open>split\<close> on undefined throws a TypeError.
\<close>

definition origin_subdomain :: "string option \<Rightarrow> exn + string option" where
  "origin_subdomain h =
     (case h of
        None \<Rightarrow> Inl (TypeError ''Cannot read property split of undefined'')
      | Some s \<Rightarrow>
          (case js_index (js_split ''://'' s) 1 of
             None \<Rightarrow> Inl (TypeError ''Cannot read property split of undefined'')
           | Some host \<Rightarrow> Inr (js_index (js_split ''.'' host) 0)))"

text \<open>
  \<^verbatim>\<open>verifySubdomain\<close> returns the outcome of its promise, the request, the store and
  the calls made.
\<close>

definition verifySubdomain ::
  "ITeamRequest \<Rightarrow> database \<Rightarrow> (exn + unit) \<times> ITeamRequest \<times> database \<times> exn effect list" where
  "verifySubdomain req db =
     (case origin_subdomain (origin req) of
        Inl e \<Rightarrow> (Inl e, req, db, [])
      | Inr subdomain \<Rightarrow>
          (if truthy_str subdomain \<and> subdomain \<noteq> Some ''www''
           then (case user req of
                   None \<Rightarrow>
                     (Inr (), req, db,
                      [ConsoleError (TypeError ''Cannot read property email of undefined''),
                       ResStatus 500, ResEnd])
                 | Some email \<Rightarrow>
                     (case query_team_of_user (to_string subdomain) email db of
                        (Inl e, db') \<Rightarrow> (Inr (), req, db', [ConsoleError e, ResStatus 500, ResEnd])
                      | (Inr [], db') \<Rightarrow> (Inr (), req, db', [ResStatus 403, ResEnd])
                      | (Inr (i # _), db') \<Rightarrow>
                          (Inr (),
                           req\<lparr>team := Some \<lparr>team_id = i, team_subdomain = to_string subdomain\<rparr>\<rparr>,
                           db', [Next])))
           else (Inr (), req, db, [Next])))"

subsection \<open>The integration save handler\<close>

text \<open>
  What the handler reads of a caught value \<^verbatim>\<open>e\<close>: \<^verbatim>\<open>e.status\<close> and
  \<^verbatim>\<open>e.message\<close>, each possibly undefined.
\<close>

record thrown =
  status :: "int option"
  message :: "string option"

record save_body =
  name :: string
  authentication :: string
  providers :: "string list"

record save_request =
  req_team :: "ITeam option"
  req_body :: save_body

text \<open>
  \<^verbatim>\<open>IntegrationModel\<close> is an external collaborator: \<open>integration\<close> stands for
  constructing it with the tenant id and the name, \<^verbatim>\<open>init()\<close> and
  \<^verbatim>\<open>save(authentication, providers)\<close>, and returns what that throws, if anything.
  Reading \<^verbatim>\<open>req.team.id\<close> of an undefined \<^verbatim>\<open>req.team\<close> throws a TypeError, which
  has a message and no status.
\<close>

definition try_save ::
  "save_request \<Rightarrow> (int \<Rightarrow> save_body \<Rightarrow> thrown + unit) \<Rightarrow> thrown + unit" where
  "try_save req integration =
     (case req_team req of
        None \<Rightarrow> Inl \<lparr>status = None, message = Some ''Cannot read property id of undefined''\<rparr>
      | Some t \<Rightarrow> integration (team_id t) (req_body req))"

definition postSave ::
  "save_request \<Rightarrow> (int \<Rightarrow> save_body \<Rightarrow> thrown + unit) \<Rightarrow> thrown effect list" where
  "postSave req integration =
     (case try_save req integration of
        Inr _ \<Rightarrow> [ResSendStatus 200]
      | Inl e \<Rightarrow>
          [ConsoleError e,
           ResStatus (js_or (status e) 500),
           (if truthy_num (status e) \<and> truthy_str (message e)
            then ResJson (ErrorBody (to_string (message e)))
            else ResSend)])"

subsection \<open>Example data\<close>

definition acme_row :: team_row where
  "acme_row = \<lparr>row_id = 7, row_subdomain = ''acme'', row_customer_id = None\<rparr>"

definition store_acme :: database where
  "store_acme =
     \<lparr>teams = [acme_row],
      users = [\<lparr>user_email = ''ann@acme.io'', user_team_id = Some 7\<rparr>],
      next_id = 8, fault = None, calls = []\<rparr>"

definition store_empty :: database where
  "store_empty = \<lparr>teams = [], users = [], next_id = 1, fault = None, calls = []\<rparr>"

definition store_down :: database where
  "store_down = store_acme\<lparr>fault := Some (StoreFault ''connection refused'')\<rparr>"

definition req_acme :: ITeamRequest where
  "req_acme = \<lparr>origin = Some ''https://acme.example.com'', user = Some ''ann@acme.io'', team = None\<rparr>"

definition req_www :: ITeamRequest where
  "req_www = \<lparr>origin = Some ''https://www.example.com'', user = Some ''ann@acme.io'', team = None\<rparr>"

definition stripe_yes :: "string option \<Rightarrow> exn + bool" where
  "stripe_yes c = Inr True"

definition integration_ok :: "int \<Rightarrow> save_body \<Rightarrow> thrown + unit" where
  "integration_ok i b = Inr ()"

definition integration_throws :: "thrown \<Rightarrow> int \<Rightarrow> save_body \<Rightarrow> thrown + unit" where
  "integration_throws e i b = Inl e"

definition error_duplicate :: thrown where
  "error_duplicate = \<lparr>status = Some 409, message = Some ''duplicate''\<rparr>"

definition error_no_status :: thrown where
  "error_no_status = \<lparr>status = None, message = Some ''boom''\<rparr>"

definition error_status_zero :: thrown where
  "error_status_zero = \<lparr>status = Some 0, message = Some ''boom''\<rparr>"

definition save_req :: save_request where
  "save_req =
     \<lparr>req_team = Some \<lparr>team_id = 7, team_subdomain = ''acme''\<rparr>,
      req_body = \<lparr>name = ''slack'', authentication = ''token x'', providers = [''slack'']\<rparr>\<rparr>"

section \<open>Properties\<close>

subsection \<open>Facts about splitting and the store\<close>

lemma js_split_aux_no_sep:
  "\<not> sublist sep s \<Longrightarrow> js_split_aux sep acc s = [rev acc @ s]"
proof (induction s arbitrary: acc)
  case Nil
  then show ?case by simp
next
  case (Cons c cs)
  from Cons.prems have np: "\<not> prefix sep (c # cs)" and ns: "\<not> sublist sep cs"
    by (auto simp: sublist_Cons_right)
  show ?case using Cons.IH[OF ns, of "c # acc"] np by simp
qed

lemma js_split_no_sep: "\<not> sublist sep s \<Longrightarrow> js_split sep s = [s]"
  by (simp add: js_split_def js_split_aux_no_sep)

text \<open>The first piece of a split on one character is the part before its first occurrence.\<close>

lemma js_split_aux_first:
  "js_index (js_split_aux [d] acc s) 0 = Some (rev acc @ takeWhile (\<lambda>x. x \<noteq> d) s)"
  by (induction s arbitrary: acc) auto

lemma js_split_first:
  "js_index (js_split [d] s) 0 = Some (takeWhile (\<lambda>x. x \<noteq> d) s)"
  by (simp add: js_split_def js_split_aux_first)

lemma find_append_fresh:
  "list_all (\<lambda>x. \<not> P x) xs \<Longrightarrow> find P (xs @ ys) = find P ys"
  by (induction xs) auto

lemma find_is_None: "(find P xs = None) = list_all (\<lambda>x. \<not> P x) xs"
  by (induction xs) auto

lemma regex_test_iff:
  "regex_test s = (s \<noteq> [] \<and> set s \<subseteq> set ''0123456789abcdefghijklmnopqrstuvwxyz-'')"
  unfolding regex_test_def list_all_iff in_class_def by blast

text \<open>A call that fails leaves the accessor as it was: it is still not initialized.\<close>

lemma init_failure_keeps_accessor:
  "fst (init this db) = Inl e \<Longrightarrow> fst (snd (init this db)) = this"
  by (auto simp: init_def teams_findOne_id_def split: option.splits if_splits)

lemma create_failure_keeps_accessor:
  "fst (create this u db) = Inl e \<Longrightarrow> fst (snd (create this u db)) = this"
  by (auto simp: create_def teams_insert_def Let_def split: option.splits)

text \<open>
  What \<^verbatim>\<open>init\<close> does on a working store: with no row of the accessor's id it rejects
  and leaves the accessor as it was; the warning branch is taken when the row exists and
  its subdomain is the empty string.
\<close>

lemma init_no_row:
  assumes "fault db = None"
    and "find (\<lambda>r. Some (row_id r) = this_id this) (teams db) = None"
  shows "init this db =
           (Inl (ModelError (TypeError ''Cannot read property subdomain of null'')), this,
            called (FindOneById (this_id this)) db, [])"
  using assms by (simp add: init_def teams_findOne_id_def)

lemma init_row_without_subdomain:
  assumes "fault db = None"
    and "find (\<lambda>r. Some (row_id r) = this_id this) (teams db) = Some r"
    and "row_subdomain r = []"
  shows "init this db =
           (Inr (this_id this), this\<lparr>initialized := True\<rparr>,
            called (FindOneById (this_id this)) db, [warn_no_team])"
  using assms by (simp add: init_def teams_findOne_id_def)



text \<open>
  Run on a response not yet sent, \<^verbatim>\<open>verifyTeamName\<close> calls \<^verbatim>\<open>next\<close> as often as
  its list of calls says.
\<close>

lemma verifyTeamName_on_next:
  "\<not> headersSent r \<Longrightarrow>
     snd (snd (verifyTeamName_on b r)) = count_list (verifyTeamName b) Next"
  by (simp add: verifyTeamName_on_def verifyTeamName_def check_present_def check_charset_def
      reject_400_def res_json_def res_status_def)

subsection \<open>Claims\<close>

text \<open>
  C1. The claim: when \<^verbatim>\<open>findOne\<close> returns no matching row, \<^verbatim>\<open>init\<close> logs a warning,
  marks the accessor initialized and returns the id, without throwing. The code does
  otherwise: on a store with no team of id 7, \<^verbatim>\<open>findOne\<close> resolves to null, the read
  of \<^verbatim>\<open>team.subdomain\<close> throws a TypeError, and \<^verbatim>\<open>init\<close> rejects with it wrapped in a
  ModelError; the accessor stays uninitialized and nothing is logged.
\<close>

theorem init_missing_row_throws:
  "init (new_TeamModel (Some 7)) store_empty =
     (Inl (ModelError (TypeError ''Cannot read property subdomain of null'')),
      new_TeamModel (Some 7),
      store_empty\<lparr>calls := [FindOneById (Some 7)]\<rparr>,
      [])
   \<and> initialized (new_TeamModel (Some 7)) = False"
  by (simp add: init_def teams_findOne_id_def called_def store_empty_def new_TeamModel_def)

text \<open>
  C2 (as amended). When the handling throws \<open>e\<close>, the handler logs it, sets the response
  status to \<^verbatim>\<open>e.status\<close> if that is truthy (present and not 0) and to 500 otherwise, and
  sends the JSON body \<^verbatim>\<open>{error: e.message}\<close> if and only if \<^verbatim>\<open>e.status\<close> is truthy and
  \<^verbatim>\<open>e.message\<close> is truthy (present and not the empty string); otherwise it calls
  \<^verbatim>\<open>send()\<close> with no body. On success its only call on the response is
  \<^verbatim>\<open>sendStatus(200)\<close>.
\<close>

theorem postSave_response:
  "(try_save req integration = Inr () \<longrightarrow> postSave req integration = [ResSendStatus 200]) \<and>
   (try_save req integration = Inl e \<longrightarrow>
      postSave req integration =
        [ConsoleError e,
         ResStatus (case status e of None \<Rightarrow> 500 | Some n \<Rightarrow> if n = 0 then 500 else n),
         (case (status e, message e) of
            (Some n, Some m) \<Rightarrow> if n \<noteq> 0 \<and> m \<noteq> [] then ResJson (ErrorBody m) else ResSend
          | _ \<Rightarrow> ResSend)])"
  by (cases "status e"; cases "message e") (simp_all add: postSave_def)

theorem postSave_response_witness:
  "postSave save_req integration_ok = [ResSendStatus 200] \<and>
   postSave save_req (integration_throws error_duplicate) =
     [ConsoleError error_duplicate, ResStatus 409, ResJson (ErrorBody ''duplicate'')] \<and>
   postSave save_req (integration_throws error_no_status) =
     [ConsoleError error_no_status, ResStatus 500, ResSend]"
proof -
  have ok: "try_save save_req integration_ok = Inr ()"
    by (simp add: try_save_def save_req_def integration_ok_def)
  have th: "try_save save_req (integration_throws e) = Inl e" for e
    by (simp add: try_save_def save_req_def integration_throws_def)
  have d: "status error_duplicate = Some 409" "message error_duplicate = Some ''duplicate''"
    by (simp_all add: error_duplicate_def)
  have n: "status error_no_status = None"
    by (simp add: error_no_status_def)
  show ?thesis
    using postSave_response [of save_req integration_ok]
      postSave_response [of save_req "integration_throws error_duplicate" error_duplicate]
      postSave_response [of save_req "integration_throws error_no_status" error_no_status]
    by (simp add: ok th d n)
qed

text \<open>
  C2 as stated fails: an error that has a message and the status 0 gets the response
  status 500, not its own status, and no JSON body.
\<close>

theorem postSave_status_zero_counterexample:
  "status error_status_zero = Some 0 \<and>
   message error_status_zero = Some ''boom'' \<and>
   postSave save_req (integration_throws error_status_zero) =
     [ConsoleError error_status_zero, ResStatus 500, ResSend] \<and>
   ResStatus 0 \<notin> set (postSave save_req (integration_throws error_status_zero)) \<and>
   ResJson (ErrorBody ''boom'') \<notin> set (postSave save_req (integration_throws error_status_zero))"
  by (simp add: postSave_def try_save_def save_req_def integration_throws_def
      error_status_zero_def)

text \<open>
  C3. For a request whose origin yields a non-empty label \<open>s\<close> other than \<^verbatim>\<open>www\<close>, with
  an authenticated user, when the join query returns the rows \<open>data\<close>: if \<open>data\<close> is
  empty the middleware calls \<^verbatim>\<open>res.status(403).end()\<close> (no body), does not call
  \<^verbatim>\<open>next\<close> and leaves the request as it was; otherwise it attaches the first row's id
  and \<open>s\<close> as \<^verbatim>\<open>req.team\<close> and calls \<^verbatim>\<open>next\<close>, writing no response.
\<close>

theorem verifySubdomain_lookup:
  assumes "origin_subdomain (origin req) = Inr (Some s)"
    and "s \<noteq> []" and "s \<noteq> ''www''"
    and "user req = Some email"
    and "query_team_of_user s email db = (Inr data, db')"
  shows "(data = [] \<longrightarrow>
            verifySubdomain req db = (Inr (), req, db', [ResStatus 403, ResEnd])) \<and>
         (data \<noteq> [] \<longrightarrow>
            verifySubdomain req db =
              (Inr (), req\<lparr>team := Some \<lparr>team_id = hd data, team_subdomain = s\<rparr>\<rparr>, db', [Next]))"
  using assms by (cases data) (simp_all add: verifySubdomain_def)

theorem verifySubdomain_lookup_witness:
  "verifySubdomain req_acme store_empty =
     (Inr (), req_acme, store_empty\<lparr>calls := [QueryTeamOfUser ''acme'' ''ann@acme.io'']\<rparr>,
      [ResStatus 403, ResEnd]) \<and>
   verifySubdomain req_acme store_acme =
     (Inr (), req_acme\<lparr>team := Some \<lparr>team_id = 7, team_subdomain = ''acme''\<rparr>\<rparr>,
      store_acme\<lparr>calls := [QueryTeamOfUser ''acme'' ''ann@acme.io'']\<rparr>, [Next])"
proof -
  have o: "origin_subdomain (origin req_acme) = Inr (Some ''acme'')"
    by (simp add: origin_subdomain_def req_acme_def js_split_def)
  have u: "user req_acme = Some ''ann@acme.io''"
    by (simp add: req_acme_def)
  have q0: "query_team_of_user ''acme'' ''ann@acme.io'' store_empty =
      (Inr [], store_empty\<lparr>calls := [QueryTeamOfUser ''acme'' ''ann@acme.io'']\<rparr>)"
    by (simp add: query_team_of_user_def store_empty_def called_def)
  have q1: "query_team_of_user ''acme'' ''ann@acme.io'' store_acme =
      (Inr [7], store_acme\<lparr>calls := [QueryTeamOfUser ''acme'' ''ann@acme.io'']\<rparr>)"
    by (simp add: query_team_of_user_def store_acme_def acme_row_def called_def)
  show ?thesis
    using verifySubdomain_lookup [OF o _ _ u q0] verifySubdomain_lookup [OF o _ _ u q1]
    by simp
qed

text \<open>
  C4. When \<^verbatim>\<open>newURL\<close> is a non-empty string all of whose characters are in
  \<^verbatim>\<open>[0-9a-z-]\<close>, the validation middleware calls \<^verbatim>\<open>next\<close> exactly once and makes no
  call on the response. When \<^verbatim>\<open>newURL\<close> is a string with a character outside
  \<^verbatim>\<open>[0-9a-z-]\<close>, it sets status 400, sends a JSON error message and does not call
  \<^verbatim>\<open>next\<close>.
\<close>

theorem verifyTeamName_charset:
  "(newURL b = Some s \<and> s \<noteq> [] \<and> set s \<subseteq> set ''0123456789abcdefghijklmnopqrstuvwxyz-''
      \<longrightarrow> verifyTeamName b = [Next]) \<and>
   (newURL b = Some s \<and> \<not> set s \<subseteq> set ''0123456789abcdefghijklmnopqrstuvwxyz-''
      \<longrightarrow> verifyTeamName b = [ResStatus 400, ResJson (ErrorBody msg_charset)]
          \<and> Next \<notin> set (verifyTeamName b))"
proof (intro conjI impI)
  assume a: "newURL b = Some s \<and> s \<noteq> [] \<and> set s \<subseteq> set ''0123456789abcdefghijklmnopqrstuvwxyz-''"
  then have "regex_test s" by (simp only: regex_test_iff simp_thms)
  with a show "verifyTeamName b = [Next]"
    by (simp add: verifyTeamName_def check_present_def check_charset_def)
next
  assume a: "newURL b = Some s \<and> \<not> set s \<subseteq> set ''0123456789abcdefghijklmnopqrstuvwxyz-''"
  then have r: "\<not> regex_test s" by (simp only: regex_test_iff simp_thms)
  from a have "s \<noteq> []" by auto
  with a r show v: "verifyTeamName b = [ResStatus 400, ResJson (ErrorBody msg_charset)]"
    by (simp add: verifyTeamName_def check_present_def check_charset_def)
  show "Next \<notin> set (verifyTeamName b)" by (simp add: v)
qed

theorem verifyTeamName_charset_witness:
  "verifyTeamName \<lparr>newURL = Some ''acme-42''\<rparr> = [Next] \<and>
   verifyTeamName \<lparr>newURL = Some ''Acme_42''\<rparr> = [ResStatus 400, ResJson (ErrorBody msg_charset)]"
  using verifyTeamName_charset [of "\<lparr>newURL = Some ''acme-42''\<rparr>" "''acme-42''"]
    verifyTeamName_charset [of "\<lparr>newURL = Some ''Acme_42''\<rparr>" "''Acme_42''"]
  by simp




text \<open>
  C6. On every working store in which no team has the subdomain \<^verbatim>\<open>acme\<close>,
  \<^verbatim>\<open>create("acme")\<close> returns a new id, and \<^verbatim>\<open>findTeamByURL\<close> of
  \<^verbatim>\<open>acme.example.com\<close> on the resulting store returns a team with that id.
\<close>

theorem create_then_findTeamByURL:
  assumes "fault db = None"
    and "list_all (\<lambda>r. row_subdomain r \<noteq> ''acme'') (teams db)"
  shows "\<exists>n this' db' row.
           create this ''acme'' db = (Inr (Some n), this', db') \<and>
           this_id this' = Some n \<and>
           fst (findTeamByURL db' ''acme.example.com'') = Inr (Some row) \<and>
           row_id row = n \<and> row_subdomain row = ''acme''"
proof -
  let ?r = "\<lparr>row_id = next_id db, row_subdomain = ''acme'', row_customer_id = None\<rparr>"
  let ?db' = "called (InsertTeam ''acme'') (db\<lparr>teams := teams db @ [?r], next_id := next_id db + 1\<rparr>)"
  let ?this' = "this\<lparr>this_id := Some (next_id db), initialized := True\<rparr>"
  have c: "create this ''acme'' db = (Inr (Some (next_id db)), ?this', ?db')"
    using assms(1) by (simp add: create_def teams_insert_def Let_def)
  have s: "js_index (js_split ''.'' ''acme.example.com'') 0 = Some ''acme''"
    by (simp add: js_split_first)
  have "list_all (\<lambda>x. \<not> Some (row_subdomain x) = Some ''acme'') (teams db)"
    using assms(2) by simp
  then have f: "find (\<lambda>r. Some (row_subdomain r) = Some ''acme'') (teams db @ [?r]) = Some ?r"
    by (simp add: find_append_fresh)
  have "fst (findTeamByURL ?db' ''acme.example.com'') = Inr (Some ?r)"
    using assms(1) f by (simp add: findTeamByURL_def s teams_findOne_subdomain_def called_def)
  with c show ?thesis by simp
qed

theorem create_then_findTeamByURL_witness:
  "\<exists>n this' db' row.
     create (new_TeamModel None) ''acme'' store_empty = (Inr (Some n), this', db') \<and>
     this_id this' = Some n \<and>
     fst (findTeamByURL db' ''acme.example.com'') = Inr (Some row) \<and>
     row_id row = n \<and> row_subdomain row = ''acme''"
proof -
  have "fault store_empty = None" and "list_all (\<lambda>r. row_subdomain r \<noteq> ''acme'') (teams store_empty)"
    by (simp_all add: store_empty_def)
  then show ?thesis by (rule create_then_findTeamByURL)
qed

text \<open>
  C7. On a working store, \<^verbatim>\<open>available(db, subdomain)\<close> returns false if a team row
  with exactly that subdomain exists and true otherwise. When the store rejects the
  lookup with a fault, \<^verbatim>\<open>available\<close> rejects with that fault wrapped in a ModelError.
\<close>

theorem available_iff_no_team:
  "(fault db = None \<longrightarrow>
      fst (available db s) = Inr (\<not> (\<exists>r \<in> set (teams db). row_subdomain r = s))) \<and>
   (fault db = Some e \<longrightarrow> fst (available db s) = Inl (ModelError e))"
proof (intro conjI impI)
  assume n: "fault db = None"
  show "fst (available db s) = Inr (\<not> (\<exists>r \<in> set (teams db). row_subdomain r = s))"
  proof (cases "find (\<lambda>r. Some (row_subdomain r) = Some s) (teams db)")
    case None
    then have "\<not> (\<exists>r \<in> set (teams db). row_subdomain r = s)"
      by (simp add: find_is_None list_all_iff)
    with None n show ?thesis
      by (simp add: available_def teams_findOne_subdomain_def)
  next
    case (Some r)
    then have "\<exists>r \<in> set (teams db). row_subdomain r = s"
      by (auto simp: find_Some_iff)
    with Some n show ?thesis
      by (simp add: available_def teams_findOne_subdomain_def)
  qed
next
  assume "fault db = Some e"
  then show "fst (available db s) = Inl (ModelError e)"
    by (simp add: available_def teams_findOne_subdomain_def)
qed

theorem available_iff_no_team_witness:
  "fst (available store_acme ''acme'') = Inr False \<and>
   fst (available store_acme ''acm'') = Inr True \<and>
   fst (available store_down ''acme'') = Inl (ModelError (StoreFault ''connection refused''))"
  using available_iff_no_team [of store_acme "''acme''"]
    available_iff_no_team [of store_acme "''acm''"]
    available_iff_no_team [of store_down "''acme''" "StoreFault ''connection refused''"]
  by (simp add: store_acme_def store_down_def acme_row_def)

text \<open>
  C8. A freshly constructed accessor is not initialized, and on every accessor that is
  not initialized (neither \<^verbatim>\<open>init\<close> nor \<^verbatim>\<open>create\<close> has completed) each of
  \<^verbatim>\<open>getSubdomain\<close>, \<^verbatim>\<open>getCustomerID\<close>, \<^verbatim>\<open>setSubdomain\<close>, \<^verbatim>\<open>setCustomerID\<close> and
  \<^verbatim>\<open>hasActiveSubscription\<close> fails with the ModelError of \<^verbatim>\<open>NO_INIT\<close>; the setters leave
  the accessor and the store, with its log of calls, as they were.
\<close>

theorem uninitialized_accessor_fails:
  "\<not> initialized (new_TeamModel i) \<and>
   (\<not> initialized this \<longrightarrow>
      getSubdomain this = Inl (ModelErrorMsg NO_INIT) \<and>
      getCustomerID this = Inl (ModelErrorMsg NO_INIT) \<and>
      setSubdomain this u db = (Inl (ModelErrorMsg NO_INIT), this, db) \<and>
      setCustomerID this c db = (Inl (ModelErrorMsg NO_INIT), this, db) \<and>
      hasActiveSubscription stripe this = Inl (ModelErrorMsg NO_INIT))"
  by (simp add: new_TeamModel_def getSubdomain_def getCustomerID_def setSubdomain_def
      setCustomerID_def hasActiveSubscription_def)

theorem uninitialized_accessor_fails_witness:
  "getSubdomain (new_TeamModel (Some 7)) = Inl (ModelErrorMsg NO_INIT) \<and>
   getCustomerID (new_TeamModel (Some 7)) = Inl (ModelErrorMsg NO_INIT) \<and>
   setSubdomain (new_TeamModel (Some 7)) ''beta'' store_acme =
     (Inl (ModelErrorMsg NO_INIT), new_TeamModel (Some 7), store_acme) \<and>
   setCustomerID (new_TeamModel (Some 7)) ''cus_1'' store_acme =
     (Inl (ModelErrorMsg NO_INIT), new_TeamModel (Some 7), store_acme) \<and>
   hasActiveSubscription stripe_yes (new_TeamModel (Some 7)) = Inl (ModelErrorMsg NO_INIT)"
  using uninitialized_accessor_fails [of "Some 7" "new_TeamModel (Some 7)" "''beta''" store_acme
      "''cus_1''" stripe_yes]
  by simp

text \<open>
  C9. When the Origin header has a part after \<^verbatim>\<open>://\<close> whose leading label (the part
  before the first dot) is empty or is \<^verbatim>\<open>www\<close>, the tenant-resolution middleware
  calls \<^verbatim>\<open>next\<close> and nothing else: the store receives no call and the request is
  left without a new tenant context.
\<close>

theorem verifySubdomain_skips_root:
  assumes "origin req = Some h"
    and "js_index (js_split ''://'' h) 1 = Some host"
    and "takeWhile (\<lambda>c. c \<noteq> CHR ''.'') host = [] \<or> takeWhile (\<lambda>c. c \<noteq> CHR ''.'') host = ''www''"
  shows "verifySubdomain req db = (Inr (), req, db, [Next])"
proof -
  have "origin_subdomain (origin req) = Inr (Some (takeWhile (\<lambda>c. c \<noteq> CHR ''.'') host))"
    using assms(1,2) by (simp add: origin_subdomain_def js_split_first)
  with assms(3) show ?thesis
    by (auto simp: verifySubdomain_def)
qed

theorem verifySubdomain_skips_root_witness:
  "verifySubdomain req_www store_acme = (Inr (), req_www, store_acme, [Next])"
proof -
  have a: "origin req_www = Some ''https://www.example.com''"
    by (simp add: req_www_def)
  have b: "js_index (js_split ''://'' ''https://www.example.com'') 1 = Some ''www.example.com''"
    by (simp add: js_split_def)
  have c: "takeWhile (\<lambda>c. c \<noteq> CHR ''.'') ''www.example.com'' = []
      \<or> takeWhile (\<lambda>c. c \<noteq> CHR ''.'') ''www.example.com'' = ''www''"
    by simp
  show ?thesis by (rule verifySubdomain_skips_root [OF a b c])
qed

text \<open>
  C10. When the Origin header is absent, or does not contain \<^verbatim>\<open>://\<close>, the
  extraction of the subdomain throws a TypeError outside the \<^verbatim>\<open>try\<close>: the promise of
  \<^verbatim>\<open>verifySubdomain\<close> is rejected, and no call is made on the response, on
  \<^verbatim>\<open>next\<close> or on the store.
\<close>

theorem verifySubdomain_bad_origin_throws:
  assumes "origin req = None \<or> (\<exists>h. origin req = Some h \<and> \<not> sublist ''://'' h)"
  shows "verifySubdomain req db =
           (Inl (TypeError ''Cannot read property split of undefined''), req, db, [])"
  using assms
proof
  assume "origin req = None"
  then show ?thesis by (simp add: verifySubdomain_def origin_subdomain_def)
next
  assume "\<exists>h. origin req = Some h \<and> \<not> sublist ''://'' h"
  then obtain h where h: "origin req = Some h" and n: "\<not> sublist ''://'' h" by blast
  from n have "js_split ''://'' h = [h]" by (rule js_split_no_sep)
  with h show ?thesis by (simp add: verifySubdomain_def origin_subdomain_def)
qed

theorem verifySubdomain_bad_origin_throws_witness:
  "verifySubdomain (req_acme\<lparr>origin := None\<rparr>) store_acme =
     (Inl (TypeError ''Cannot read property split of undefined''),
      req_acme\<lparr>origin := None\<rparr>, store_acme, []) \<and>
   verifySubdomain (req_acme\<lparr>origin := Some ''localhost''\<rparr>) store_acme =
     (Inl (TypeError ''Cannot read property split of undefined''),
      req_acme\<lparr>origin := Some ''localhost''\<rparr>, store_acme, [])"
proof -
  have a: "origin (req_acme\<lparr>origin := None\<rparr>) = None
      \<or> (\<exists>h. origin (req_acme\<lparr>origin := None\<rparr>) = Some h \<and> \<not> sublist ''://'' h)"
    by simp
  have "\<not> sublist ''://'' ''localhost''"
    by (simp add: sublist_Cons_right)
  then have b: "origin (req_acme\<lparr>origin := Some ''localhost''\<rparr>) = None
      \<or> (\<exists>h. origin (req_acme\<lparr>origin := Some ''localhost''\<rparr>) = Some h \<and> \<not> sublist ''://'' h)"
    by simp
  show ?thesis
    using verifySubdomain_bad_origin_throws [OF a] verifySubdomain_bad_origin_throws [OF b]
    by simp
qed

end
